theory Spec2Isabelle
  imports Main
begin

section \<open>The Stripe-to-WooCommerce webhook bridge (src/server.js)\<close>

text \<open>
  A shallow embedding of the reconciliation logic of \<open>src/server.js\<close>. The two REST
  clients (the \<open>stripe\<close> SDK and \<open>WooCommerceRestApi\<close>) are libraries outside the
  repository: their answers are parameters of the model (one function per endpoint the
  code calls), and every call the code issues against WooCommerce is recorded, in order,
  in a trace. A rejected promise is the left injection of a sum. Logging is not modelled.
\<close>

subsection \<open>JavaScript values and object literals\<close>

text \<open>
  \<open>x || ''\<close> on an optional string field: \<open>undefined\<close>, \<open>null\<close> and the empty
  string are falsy.
\<close>

definition truthy :: "string option \<Rightarrow> bool" where
  "truthy v = (case v of None \<Rightarrow> False | Some s \<Rightarrow> s \<noteq> [])"

definition or_empty :: "string option \<Rightarrow> string" where
  "or_empty v = (case v of None \<Rightarrow> [] | Some s \<Rightarrow> s)"

text \<open>
  \<open>productMapping\<close> and \<open>statusMap\<close> are object literals, read with \<open>obj[key]\<close>.
  Such a read looks at the object's own properties first and then at its prototype,
  \<open>Object.prototype\<close>, whose members are functions (and, for \<open>__proto__\<close>, the
  prototype object itself): all of them truthy, none of them a string.
\<close>

definition Object_prototype_members :: "string list" where
  "Object_prototype_members =
     [''constructor'', ''__defineGetter__'', ''__defineSetter__'', ''hasOwnProperty'',
      ''__lookupGetter__'', ''__lookupSetter__'', ''isPrototypeOf'',
      ''propertyIsEnumerable'', ''toString'', ''valueOf'', ''__proto__'',
      ''toLocaleString'']"

datatype 'a js_property = Own 'a | Inherited string | Undefined

definition js_get :: "(string \<times> 'a) list \<Rightarrow> string \<Rightarrow> 'a js_property" where
  "js_get obj k =
     (case map_of obj k of
        Some v \<Rightarrow> Own v
      | None \<Rightarrow> if k \<in> set Object_prototype_members then Inherited k else Undefined)"

text \<open>\<open>s.split(' ')\<close> and \<open>parts.join(' ')\<close>.\<close>

fun split_space :: "string \<Rightarrow> string list" where
  "split_space [] = [[]]"
| "split_space (c # cs) =
     (if c = CHR '' '' then [] # split_space cs
      else (case split_space cs of
              [] \<Rightarrow> [[c]]
            | p # ps \<Rightarrow> (c # p) # ps))"

fun join_space :: "string list \<Rightarrow> string" where
  "join_space [] = []"
| "join_space [p] = p"
| "join_space (p # q # ps) = p @ CHR '' '' # join_space (q # ps)"

definition first_name_of :: "string option \<Rightarrow> string" where
  "first_name_of name =
     (if truthy name
      then (case split_space (or_empty name) of [] \<Rightarrow> [] | p # _ \<Rightarrow> p)
      else [])"

definition last_name_of :: "string option \<Rightarrow> string" where
  "last_name_of name =
     (if truthy name then join_space (tl (split_space (or_empty name))) else [])"

subsection \<open>Data model\<close>

text \<open>The static tables of the source.\<close>

record product_entry =
  productId :: nat
  isSubscription :: bool
  subscriptionPeriod :: "string option"

definition productMapping :: "(string \<times> product_entry) list" where
  "productMapping =
     [(''price_123456789'',
         \<lparr>productId = 123, isSubscription = True, subscriptionPeriod = Some ''month''\<rparr>),
      (''price_987654321'',
         \<lparr>productId = 456, isSubscription = False, subscriptionPeriod = None\<rparr>)]"

definition statusMap :: "(string \<times> string) list" where
  "statusMap =
     [(''active'', ''active''),
      (''past_due'', ''on-hold''),
      (''unpaid'', ''on-hold''),
      (''canceled'', ''cancelled''),
      (''incomplete'', ''pending''),
      (''incomplete_expired'', ''cancelled''),
      (''trialing'', ''active''),
      (''paused'', ''on-hold'')]"

text \<open>Objects received from Stripe.\<close>

record stripe_address =
  line1 :: "string option"
  line2 :: "string option"
  addr_city :: "string option"
  addr_state :: "string option"
  postal_code :: "string option"
  addr_country :: "string option"

record customer_details =
  cd_email :: "string option"
  cd_name :: "string option"
  cd_phone :: "string option"
  cd_address :: "stripe_address option"

record session =
  ses_id :: string
  ses_customer_details :: "customer_details option"
  ses_subscription :: "string option"

record stripe_line_item =
  price_id :: string
  li_quantity :: nat

record invoice =
  inv_id :: string
  inv_subscription :: string
  inv_customer :: string
  inv_status :: string

record stripe_subscription =
  sub_id :: string
  sub_customer :: string
  sub_status :: string

record stripe_customer =
  sc_email :: "string option"

text \<open>Objects sent to and received from WooCommerce.\<close>

record meta =
  meta_key :: string
  meta_value :: string

record woo_address =
  first_name :: string
  last_name :: string
  address_1 :: string
  address_2 :: string
  city :: string
  state :: string
  postcode :: string
  country :: string

record woo_billing = woo_address +
  email :: "string option"
  phone :: string

text \<open>
  \<open>product_id\<close> is optional: the Order Builder writes \<open>mapping.productId\<close>, which is
  \<open>undefined\<close> when \<open>mapping\<close> is an inherited member of \<open>Object.prototype\<close>.
\<close>

record woo_line_item =
  product_id :: "nat option"
  quantity :: nat

record customer_data =
  cdata_email :: string
  cdata_first_name :: string
  cdata_last_name :: string
  cdata_billing :: woo_billing
  cdata_shipping :: woo_address

record order_data =
  customer_id :: nat
  payment_method :: string
  payment_method_title :: string
  set_paid :: bool
  order_status :: "string option"
  billing :: "woo_billing option"
  shipping :: "woo_address option"
  line_items :: "woo_line_item list"
  meta_data :: "meta list"

record woo_customer =
  cust_id :: nat
  cust_email :: string

record woo_order =
  ord_id :: nat
  ord_meta_data :: "meta list"

text \<open>
  A subscription as \<open>GET subscriptions\<close> returns it. \<open>meta_data\<close> is optional because
  the source guards it (\<open>if (!sub.meta_data) return false\<close>). \<open>ws_date_created\<close> is the
  time value of \<open>new Date(sub.date_created)\<close>, in milliseconds.
\<close>

record subscription_item =
  si_product_id :: nat
  si_quantity :: nat

record woo_subscription =
  ws_id :: nat
  ws_status :: string
  ws_date_created :: int
  ws_meta_data :: "meta list option"
  ws_line_items :: "subscription_item list"

text \<open>
  What \<open>wooStatus\<close> can be: a status string, or a member of \<open>Object.prototype\<close>.
\<close>

datatype status_value = StatusString string | PrototypeMember string

subsection \<open>Errors, the two clients and the trace of back-office calls\<close>

text \<open>
  The source throws plain \<open>Error\<close> objects; the constructors are named after the spec's
  taxonomy. \<open>ValidationError\<close> is \<open>'Customer email is required'\<close>,
  \<open>UnmappedProductError p\<close> is \<open>'No product mapping found for Stripe price ID: p'\<close>,
  \<open>CustomerNotFoundError e\<close> is \<open>'No WooCommerce customer found for email: e'\<close>,
  \<open>TransportError m\<close> is a rejection of one of the two clients, \<open>TypeError\<close> is a
  property read on \<open>null\<close> or \<open>undefined\<close>.
\<close>

datatype error =
    ValidationError
  | UnmappedProductError string
  | CustomerNotFoundError "string option"
  | TransportError string
  | TypeError

type_synonym 'a api_result = "string + 'a"

record stripe_client =
  listLineItems :: "string \<Rightarrow> stripe_line_item list api_result"
  subscriptions_retrieve :: "string \<Rightarrow> stripe_subscription api_result"
  customers_retrieve :: "string \<Rightarrow> stripe_customer api_result"

text \<open>
  The \<open>get\<close> endpoints answer with \<open>response.data\<close>, which the source allows to be
  missing (\<open>response.data && response.data.length > 0\<close>).
\<close>

record woo_client =
  get_customers :: "string option \<Rightarrow> woo_customer list option api_result"
  post_customers :: "customer_data \<Rightarrow> woo_customer api_result"
  post_orders :: "order_data \<Rightarrow> woo_order api_result"
  put_orders :: "nat \<Rightarrow> meta list \<Rightarrow> woo_order api_result"
  get_subscriptions :: "nat \<Rightarrow> woo_subscription list option api_result"
  put_subscriptions :: "nat \<Rightarrow> status_value \<Rightarrow> woo_subscription api_result"

datatype request =
    GET_customers "string option"
  | POST_customers customer_data
  | POST_orders order_data
  | PUT_orders nat "meta list"
  | GET_subscriptions nat
  | PUT_subscriptions nat status_value

fun is_write :: "request \<Rightarrow> bool" where
  "is_write (GET_customers _) = False"
| "is_write (GET_subscriptions _) = False"
| "is_write (POST_customers _) = True"
| "is_write (POST_orders _) = True"
| "is_write (PUT_orders _ _) = True"
| "is_write (PUT_subscriptions _ _) = True"

definition writes :: "request list \<Rightarrow> request list" where
  "writes t = filter is_write t"

text \<open>
  An asynchronous function of the source: the WooCommerce calls it issued, and what it
  resolved to or was rejected with.
\<close>

type_synonym 'a io = "request list \<times> (error + 'a)"

definition woo_call :: "request \<Rightarrow> 'a api_result \<Rightarrow> 'a io" where
  "woo_call r res =
     ([r], case res of Inl m \<Rightarrow> Inl (TransportError m) | Inr x \<Rightarrow> Inr x)"

definition stripe_call :: "'a api_result \<Rightarrow> 'a io" where
  "stripe_call res =
     ([], case res of Inl m \<Rightarrow> Inl (TransportError m) | Inr x \<Rightarrow> Inr x)"

definition throw :: "error \<Rightarrow> 'a io" where
  "throw e = ([], Inl e)"

definition return :: "'a \<Rightarrow> 'a io" where
  "return x = ([], Inr x)"

text \<open>\<open>await m\<close> followed by the rest of the function body.\<close>

definition await :: "'a io \<Rightarrow> ('a \<Rightarrow> 'b io) \<Rightarrow> 'b io" where
  "await m f =
     (case m of
        (t, Inl e) \<Rightarrow> (t, Inl e)
      | (t, Inr x) \<Rightarrow> (case f x of (t', r) \<Rightarrow> (t @ t', r)))"

subsection \<open>Status Translator: \<open>updateWooSubscriptionStatus\<close>\<close>

text \<open>\<open>const wooStatus = statusMap[stripeStatus] || 'on-hold'\<close>.\<close>

definition wooStatus :: "string \<Rightarrow> status_value" where
  "wooStatus stripeStatus =
     (case js_get statusMap stripeStatus of
        Own v \<Rightarrow> if v \<noteq> [] then StatusString v else StatusString ''on-hold''
      | Inherited k \<Rightarrow> PrototypeMember k
      | Undefined \<Rightarrow> StatusString ''on-hold'')"

definition updateWooSubscriptionStatus ::
    "woo_client \<Rightarrow> nat \<Rightarrow> string \<Rightarrow> woo_subscription io" where
  "updateWooSubscriptionStatus w subscriptionId stripeStatus =
     woo_call (PUT_subscriptions subscriptionId (wooStatus stripeStatus))
       (put_subscriptions w subscriptionId (wooStatus stripeStatus))"

subsection \<open>Customer Reconciler: \<open>getOrCreateWooCustomer\<close>, \<open>findWooCustomerByEmail\<close>\<close>

text \<open>\<open>details.address ? details.address.f || '' : ''\<close>.\<close>

definition address_field ::
    "stripe_address option \<Rightarrow> (stripe_address \<Rightarrow> string option) \<Rightarrow> string" where
  "address_field a f = (case a of None \<Rightarrow> [] | Some addr \<Rightarrow> or_empty (f addr))"

definition shipping_of :: "customer_details \<Rightarrow> woo_address" where
  "shipping_of cd =
     \<lparr>first_name = first_name_of (cd_name cd),
      last_name = last_name_of (cd_name cd),
      address_1 = address_field (cd_address cd) line1,
      address_2 = address_field (cd_address cd) line2,
      city = address_field (cd_address cd) addr_city,
      state = address_field (cd_address cd) addr_state,
      postcode = address_field (cd_address cd) postal_code,
      country = address_field (cd_address cd) addr_country\<rparr>"

definition billing_of :: "customer_details \<Rightarrow> woo_billing" where
  "billing_of cd =
     \<lparr>first_name = first_name_of (cd_name cd),
      last_name = last_name_of (cd_name cd),
      address_1 = address_field (cd_address cd) line1,
      address_2 = address_field (cd_address cd) line2,
      city = address_field (cd_address cd) addr_city,
      state = address_field (cd_address cd) addr_state,
      postcode = address_field (cd_address cd) postal_code,
      country = address_field (cd_address cd) addr_country,
      email = cd_email cd,
      phone = or_empty (cd_phone cd)\<rparr>"

definition customerData :: "customer_details \<Rightarrow> customer_data" where
  "customerData cd =
     \<lparr>cdata_email = or_empty (cd_email cd),
      cdata_first_name = first_name_of (cd_name cd),
      cdata_last_name = last_name_of (cd_name cd),
      cdata_billing = billing_of cd,
      cdata_shipping = shipping_of cd\<rparr>"

definition getOrCreateWooCustomer ::
    "woo_client \<Rightarrow> customer_details option \<Rightarrow> woo_customer io" where
  "getOrCreateWooCustomer w customerDetails =
     (case customerDetails of
        None \<Rightarrow> throw ValidationError
      | Some cd \<Rightarrow>
          if \<not> truthy (cd_email cd) then throw ValidationError
          else
            await (woo_call (GET_customers (cd_email cd)) (get_customers w (cd_email cd)))
              (\<lambda>existingCustomers.
                 case existingCustomers of
                   Some (c # _) \<Rightarrow> return c
                 | _ \<Rightarrow>
                     woo_call (POST_customers (customerData cd))
                       (post_customers w (customerData cd))))"

definition findWooCustomerByEmail ::
    "woo_client \<Rightarrow> string option \<Rightarrow> woo_customer option io" where
  "findWooCustomerByEmail w e =
     await (woo_call (GET_customers e) (get_customers w e))
       (\<lambda>response.
          case response of
            Some (c # _) \<Rightarrow> return (Some c)
          | _ \<Rightarrow> return None)"

subsection \<open>Order Builder: \<open>createWooOrder\<close>\<close>

definition wooLineItem :: "stripe_line_item \<Rightarrow> error + woo_line_item" where
  "wooLineItem item =
     (case js_get productMapping (price_id item) of
        Undefined \<Rightarrow> Inl (UnmappedProductError (price_id item))
      | Own mapping \<Rightarrow>
          Inr \<lparr>product_id = Some (productId mapping), quantity = li_quantity item\<rparr>
      | Inherited _ \<Rightarrow> Inr \<lparr>product_id = None, quantity = li_quantity item\<rparr>)"

text \<open>
  \<open>Promise.all(lineItems.data.map(async ...))\<close>: the callbacks do not await, so
  every promise is settled when \<open>Promise.all\<close> sees it, and the first rejected one in
  list order rejects the whole.
\<close>

fun wooLineItems :: "stripe_line_item list \<Rightarrow> error + woo_line_item list" where
  "wooLineItems [] = Inr []"
| "wooLineItems (item # items) =
     (case wooLineItem item of
        Inl e \<Rightarrow> Inl e
      | Inr x \<Rightarrow>
          (case wooLineItems items of
             Inl e \<Rightarrow> Inl e
           | Inr xs \<Rightarrow> Inr (x # xs)))"

definition orderData ::
    "session \<Rightarrow> customer_details \<Rightarrow> woo_line_item list \<Rightarrow> nat \<Rightarrow> order_data" where
  "orderData s cd items customerId =
     \<lparr>customer_id = customerId,
      payment_method = ''stripe'',
      payment_method_title = ''Stripe'',
      set_paid = True,
      order_status = None,
      billing = Some (billing_of cd),
      shipping = Some (shipping_of cd),
      line_items = items,
      meta_data = [\<lparr>meta_key = ''stripe_checkout_id'', meta_value = ses_id s\<rparr>]\<rparr>"

text \<open>\<open>lineItems.data.some(item => mapping && mapping.isSubscription)\<close>.\<close>

definition hasSubscription :: "stripe_line_item list \<Rightarrow> bool" where
  "hasSubscription lineItems =
     list_ex (\<lambda>item. case js_get productMapping (price_id item) of
                        Own mapping \<Rightarrow> isSubscription mapping
                      | _ \<Rightarrow> False) lineItems"

definition subscription_tag :: "session \<Rightarrow> meta" where
  "subscription_tag s =
     \<lparr>meta_key = ''stripe_subscription_id'', meta_value = or_empty (ses_subscription s)\<rparr>"

definition createWooOrder ::
    "woo_client \<Rightarrow> session \<Rightarrow> stripe_line_item list \<Rightarrow> nat \<Rightarrow> woo_order io" where
  "createWooOrder w s lineItems customerId =
     (case wooLineItems lineItems of
        Inl e \<Rightarrow> throw e
      | Inr items \<Rightarrow>
          (case ses_customer_details s of
             None \<Rightarrow> throw TypeError
           | Some cd \<Rightarrow>
               await (woo_call (POST_orders (orderData s cd items customerId))
                        (post_orders w (orderData s cd items customerId)))
                 (\<lambda>response.
                    if hasSubscription lineItems \<and> truthy (ses_subscription s)
                    then
                      await (woo_call
                               (PUT_orders (ord_id response)
                                  (ord_meta_data response @ [subscription_tag s]))
                               (put_orders w (ord_id response)
                                  (ord_meta_data response @ [subscription_tag s])))
                        (\<lambda>_. return response)
                    else return response)))"

subsection \<open>Subscription Locator: \<open>findWooSubscription\<close>\<close>

definition has_stripe_tag :: "string \<Rightarrow> woo_subscription \<Rightarrow> bool" where
  "has_stripe_tag stripeSubscriptionId sub =
     (case ws_meta_data sub of
        None \<Rightarrow> False
      | Some ms \<Rightarrow>
          list_ex (\<lambda>m. meta_key m = ''stripe_subscription_id''
                      \<and> meta_value m = stripeSubscriptionId) ms)"

text \<open>
  \<open>.filter(sub => sub.status === 'active').sort((a, b) => new Date(b.date_created) -
  new Date(a.date_created))\<close>: \<open>Array.prototype.sort\<close> is stable, so this is the stable
  sort by descending creation time.
\<close>

definition activeSubscriptions :: "woo_subscription list \<Rightarrow> woo_subscription list" where
  "activeSubscriptions subs =
     sort_key (\<lambda>sub. - ws_date_created sub)
       (filter (\<lambda>sub. ws_status sub = ''active'') subs)"

definition locate :: "string \<Rightarrow> woo_subscription list option \<Rightarrow> woo_subscription option" where
  "locate stripeSubscriptionId data =
     (case data of
        None \<Rightarrow> None
      | Some [] \<Rightarrow> None
      | Some subs \<Rightarrow>
          (case List.find (has_stripe_tag stripeSubscriptionId) subs of
             Some subscription \<Rightarrow> Some subscription
           | None \<Rightarrow>
               (case activeSubscriptions subs of
                  [] \<Rightarrow> None
                | sub # _ \<Rightarrow> Some sub)))"

definition findWooSubscription ::
    "woo_client \<Rightarrow> string \<Rightarrow> nat \<Rightarrow> woo_subscription option io" where
  "findWooSubscription w stripeSubscriptionId customerId =
     await (woo_call (GET_subscriptions customerId) (get_subscriptions w customerId))
       (\<lambda>data. return (locate stripeSubscriptionId data))"

subsection \<open>Renewal Processor: \<open>processSubscriptionRenewal\<close>\<close>

definition renewalOrderData ::
    "invoice \<Rightarrow> stripe_subscription \<Rightarrow> nat \<Rightarrow> woo_subscription \<Rightarrow> order_data" where
  "renewalOrderData invoice subscription customerId wooSubscription =
     \<lparr>customer_id = customerId,
      payment_method = ''stripe'',
      payment_method_title = ''Stripe'',
      set_paid = True,
      order_status = Some ''processing'',
      billing = None,
      shipping = None,
      line_items =
        map (\<lambda>item. \<lparr>product_id = Some (si_product_id item), quantity = si_quantity item\<rparr>)
          (ws_line_items wooSubscription),
      meta_data =
        [\<lparr>meta_key = ''stripe_invoice_id'', meta_value = inv_id invoice\<rparr>,
         \<lparr>meta_key = ''stripe_subscription_id'', meta_value = sub_id subscription\<rparr>,
         \<lparr>meta_key = ''is_renewal'', meta_value = ''true''\<rparr>]\<rparr>"

text \<open>The result is \<open>None\<close> where the source returns \<open>undefined\<close> (no subscription).\<close>

definition processSubscriptionRenewal ::
    "woo_client \<Rightarrow> invoice \<Rightarrow> stripe_subscription \<Rightarrow> nat \<Rightarrow> woo_order option io" where
  "processSubscriptionRenewal w invoice subscription customerId =
     await (findWooSubscription w (sub_id subscription) customerId)
       (\<lambda>found.
          case found of
            None \<Rightarrow> return None
          | Some wooSubscription \<Rightarrow>
              await (woo_call
                       (POST_orders (renewalOrderData invoice subscription customerId wooSubscription))
                       (post_orders w
                          (renewalOrderData invoice subscription customerId wooSubscription)))
                (\<lambda>response.
                   await (updateWooSubscriptionStatus w (ws_id wooSubscription) ''active'')
                     (\<lambda>_. return (Some response))))"

subsection \<open>Event handlers and the dispatcher\<close>

definition handleCheckoutCompleted :: "stripe_client \<Rightarrow> woo_client \<Rightarrow> session \<Rightarrow> unit io" where
  "handleCheckoutCompleted st w s =
     await (stripe_call (listLineItems st (ses_id s)))
       (\<lambda>lineItems.
          await (getOrCreateWooCustomer w (ses_customer_details s))
            (\<lambda>customer.
               await (createWooOrder w s lineItems (cust_id customer))
                 (\<lambda>_. return ())))"

definition handleInvoicePaid :: "stripe_client \<Rightarrow> woo_client \<Rightarrow> invoice \<Rightarrow> unit io" where
  "handleInvoicePaid st w invoice =
     await (stripe_call (subscriptions_retrieve st (inv_subscription invoice)))
       (\<lambda>subscription.
          await (stripe_call (customers_retrieve st (inv_customer invoice)))
            (\<lambda>stripeCustomer.
               await (findWooCustomerByEmail w (sc_email stripeCustomer))
                 (\<lambda>customer.
                    case customer of
                      None \<Rightarrow> throw (CustomerNotFoundError (sc_email stripeCustomer))
                    | Some c \<Rightarrow>
                        await (processSubscriptionRenewal w invoice subscription (cust_id c))
                          (\<lambda>_. return ()))))"

definition handleSubscriptionUpdated ::
    "stripe_client \<Rightarrow> woo_client \<Rightarrow> stripe_subscription \<Rightarrow> unit io" where
  "handleSubscriptionUpdated st w subscription =
     await (stripe_call (customers_retrieve st (sub_customer subscription)))
       (\<lambda>stripeCustomer.
          await (findWooCustomerByEmail w (sc_email stripeCustomer))
            (\<lambda>customer.
               case customer of
                 None \<Rightarrow> throw (CustomerNotFoundError (sc_email stripeCustomer))
               | Some c \<Rightarrow>
                   await (findWooSubscription w (sub_id subscription) (cust_id c))
                     (\<lambda>found.
                        case found of
                          None \<Rightarrow> return ()
                        | Some wooSubscription \<Rightarrow>
                            await (updateWooSubscriptionStatus w (ws_id wooSubscription)
                                     (sub_status subscription))
                              (\<lambda>_. return ()))))"

definition handleSubscriptionCancelled ::
    "stripe_client \<Rightarrow> woo_client \<Rightarrow> stripe_subscription \<Rightarrow> unit io" where
  "handleSubscriptionCancelled st w subscription =
     await (stripe_call (customers_retrieve st (sub_customer subscription)))
       (\<lambda>stripeCustomer.
          await (findWooCustomerByEmail w (sc_email stripeCustomer))
            (\<lambda>customer.
               case customer of
                 None \<Rightarrow> throw (CustomerNotFoundError (sc_email stripeCustomer))
               | Some c \<Rightarrow>
                   await (findWooSubscription w (sub_id subscription) (cust_id c))
                     (\<lambda>found.
                        case found of
                          None \<Rightarrow> return ()
                        | Some wooSubscription \<Rightarrow>
                            await (updateWooSubscriptionStatus w (ws_id wooSubscription)
                                     ''cancelled'')
                              (\<lambda>_. return ()))))"

text \<open>
  The event, as \<open>event.type\<close> with \<open>event.data.object\<close>. \<open>constructEvent\<close> belongs
  to the Stripe SDK: the dispatcher is given its outcome, the message of the
  verification failure or the verified event.
\<close>

datatype event =
    checkout_session_completed session
  | invoice_paid invoice
  | customer_subscription_updated stripe_subscription
  | customer_subscription_deleted stripe_subscription
  | unhandled string

datatype response_body = WebhookError string | Received | FailedToProcess

record http_response =
  status_code :: nat
  body :: response_body

definition dispatch :: "stripe_client \<Rightarrow> woo_client \<Rightarrow> event \<Rightarrow> unit io" where
  "dispatch st w ev =
     (case ev of
        checkout_session_completed s \<Rightarrow> handleCheckoutCompleted st w s
      | invoice_paid invoice \<Rightarrow> handleInvoicePaid st w invoice
      | customer_subscription_updated sub \<Rightarrow> handleSubscriptionUpdated st w sub
      | customer_subscription_deleted sub \<Rightarrow> handleSubscriptionCancelled st w sub
      | unhandled _ \<Rightarrow> return ())"

definition stripe_webhook ::
    "stripe_client \<Rightarrow> woo_client \<Rightarrow> string + event \<Rightarrow> request list \<times> http_response" where
  "stripe_webhook st w constructEvent =
     (case constructEvent of
        Inl message \<Rightarrow> ([], \<lparr>status_code = 400, body = WebhookError message\<rparr>)
      | Inr ev \<Rightarrow>
          (case dispatch st w ev of
             (t, Inr _) \<Rightarrow> (t, \<lparr>status_code = 200, body = Received\<rparr>)
           | (t, Inl _) \<Rightarrow> (t, \<lparr>status_code = 500, body = FailedToProcess\<rparr>)))"

subsection \<open>A back-office and a processor for the examples\<close>

text \<open>
  A back-office that answers every create call with the record it was sent (under a fresh
  id), and a processor with one customer, used to run the functions on concrete events.
\<close>

definition older_active_sub :: woo_subscription where
  "older_active_sub =
     \<lparr>ws_id = 10, ws_status = ''active'', ws_date_created = 1000, ws_meta_data = None,
      ws_line_items = [\<lparr>si_product_id = 123, si_quantity = 1\<rparr>]\<rparr>"

definition tagged_on_hold_sub :: woo_subscription where
  "tagged_on_hold_sub =
     \<lparr>ws_id = 11, ws_status = ''on-hold'', ws_date_created = 500,
      ws_meta_data = Some [\<lparr>meta_key = ''stripe_subscription_id'', meta_value = ''sub_1''\<rparr>],
      ws_line_items = [\<lparr>si_product_id = 123, si_quantity = 2\<rparr>]\<rparr>"

definition recent_active_sub :: woo_subscription where
  "recent_active_sub =
     \<lparr>ws_id = 12, ws_status = ''active'', ws_date_created = 2000, ws_meta_data = Some [],
      ws_line_items = [\<lparr>si_product_id = 456, si_quantity = 3\<rparr>]\<rparr>"

definition demo_subscriptions :: "woo_subscription list" where
  "demo_subscriptions = [older_active_sub, tagged_on_hold_sub, recent_active_sub]"

definition demo_woo :: woo_client where
  "demo_woo =
     \<lparr>get_customers =
        (\<lambda>e. Inr (Some (if e = Some ''a@example.com''
                         then [\<lparr>cust_id = 5, cust_email = ''a@example.com''\<rparr>,
                               \<lparr>cust_id = 8, cust_email = ''a@example.com''\<rparr>]
                         else []))),
      post_customers = (\<lambda>d. Inr \<lparr>cust_id = 6, cust_email = cdata_email d\<rparr>),
      post_orders = (\<lambda>d. Inr \<lparr>ord_id = 1, ord_meta_data = meta_data d\<rparr>),
      put_orders = (\<lambda>i ms. Inr \<lparr>ord_id = i, ord_meta_data = ms\<rparr>),
      get_subscriptions = (\<lambda>c. Inr (Some (if c = 5 then demo_subscriptions else []))),
      put_subscriptions =
        (\<lambda>i v. Inr \<lparr>ws_id = i,
                      ws_status = (case v of StatusString s \<Rightarrow> s | PrototypeMember _ \<Rightarrow> ''active''),
                      ws_date_created = 0, ws_meta_data = None, ws_line_items = []\<rparr>)\<rparr>"

definition demo_stripe :: stripe_client where
  "demo_stripe =
     \<lparr>listLineItems = (\<lambda>i. Inr [\<lparr>price_id = ''price_123456789'', li_quantity = 2\<rparr>]),
      subscriptions_retrieve =
        (\<lambda>i. Inr \<lparr>sub_id = i, sub_customer = ''cus_1'', sub_status = ''active''\<rparr>),
      customers_retrieve =
        (\<lambda>c. Inr \<lparr>sc_email = (if c = ''cus_1'' then Some ''a@example.com''
                               else Some ''nobody@example.com'')\<rparr>)\<rparr>"

definition demo_session :: session where
  "demo_session =
     \<lparr>ses_id = ''cs_1'',
      ses_customer_details =
        Some \<lparr>cd_email = Some ''a@example.com'', cd_name = Some ''Ada Mary Lovelace'',
              cd_phone = None, cd_address = None\<rparr>,
      ses_subscription = Some ''sub_1''\<rparr>"

definition demo_deleted :: stripe_subscription where
  "demo_deleted = \<lparr>sub_id = ''sub_1'', sub_customer = ''cus_1'', sub_status = ''canceled''\<rparr>"

definition demo_items :: "stripe_line_item list" where
  "demo_items = [\<lparr>price_id = ''price_123456789'', li_quantity = 2\<rparr>]"

definition inherited_items :: "stripe_line_item list" where
  "inherited_items = [\<lparr>price_id = ''constructor'', li_quantity = 1\<rparr>]"

definition demo_invoice :: invoice where
  "demo_invoice =
     \<lparr>inv_id = ''in_1'', inv_subscription = ''sub_1'', inv_customer = ''cus_1'',
      inv_status = ''open''\<rparr>"

definition demo_subscription :: stripe_subscription where
  "demo_subscription = \<lparr>sub_id = ''sub_1'', sub_customer = ''cus_1'', sub_status = ''past_due''\<rparr>"

definition new_customer_details :: customer_details where
  "new_customer_details =
     \<lparr>cd_email = Some ''b@example.com'', cd_name = Some ''Bo'', cd_phone = None,
      cd_address = None\<rparr>"

definition known_customer_details :: customer_details where
  "known_customer_details =
     \<lparr>cd_email = Some ''a@example.com'', cd_name = None, cd_phone = None, cd_address = None\<rparr>"

definition no_email_details :: customer_details where
  "no_email_details =
     \<lparr>cd_email = None, cd_name = Some ''Cy'', cd_phone = None, cd_address = None\<rparr>"

definition stranger_subscription :: stripe_subscription where
  "stranger_subscription =
     \<lparr>sub_id = ''sub_2'', sub_customer = ''cus_2'', sub_status = ''active''\<rparr>"

text \<open>The same back-office, with no subscription for any customer.\<close>

definition single_customer_woo :: woo_client where
  "single_customer_woo =
     demo_woo\<lparr>get_subscriptions := (\<lambda>c. Inr (Some []))\<rparr>"

section \<open>Properties\<close>

lemmas io_defs = await_def woo_call_def stripe_call_def throw_def return_def

lemma io_collapse:
  assumes "fst m = t" and "snd m = r"
  shows "m = (t, r)"
  using assms by (cases m) simp

subsection \<open>Status Translator\<close>

lemma wooStatus_table:
  "wooStatus ''active'' = StatusString ''active''"
  "wooStatus ''past_due'' = StatusString ''on-hold''"
  "wooStatus ''unpaid'' = StatusString ''on-hold''"
  "wooStatus ''canceled'' = StatusString ''cancelled''"
  "wooStatus ''incomplete'' = StatusString ''pending''"
  "wooStatus ''incomplete_expired'' = StatusString ''cancelled''"
  "wooStatus ''trialing'' = StatusString ''active''"
  "wooStatus ''paused'' = StatusString ''on-hold''"
  by (simp_all add: wooStatus_def js_get_def statusMap_def)

lemma wooStatus_default:
  assumes "k \<notin> fst ` set statusMap" and "k \<notin> set Object_prototype_members"
  shows "wooStatus k = StatusString ''on-hold''"
proof -
  have "map_of statusMap k = None"
    using assms(1) by (simp add: map_of_eq_None_iff)
  with assms(2) show ?thesis
    by (simp add: wooStatus_def js_get_def)
qed

text \<open>
  C1: the status translator returns the mapped value for every status of the table (lemma
  \<open>wooStatus_table\<close>) and \<open>on-hold\<close> for every other status that is not the name of a
  member of \<open>Object.prototype\<close> (lemma \<open>wooStatus_default\<close>). For a status that is such
  a name the read \<open>statusMap[stripeStatus]\<close> finds the inherited member, which is truthy:
  at the status \<open>constructor\<close>, which is not in the table, \<open>wooStatus\<close> is that member
  and not \<open>on-hold\<close>.
\<close>

theorem wooStatus_constructor:
  "''constructor'' \<notin> fst ` set statusMap
   \<and> wooStatus ''constructor'' = PrototypeMember ''constructor''
   \<and> wooStatus ''constructor'' \<noteq> StatusString ''on-hold''"
  by (simp add: wooStatus_def js_get_def statusMap_def Object_prototype_members_def)

lemma wooStatus_cancelled: "wooStatus ''cancelled'' = StatusString ''on-hold''"
  by (simp add: wooStatus_def js_get_def statusMap_def Object_prototype_members_def)

subsection \<open>Order Builder\<close>

lemma wooLineItems_mapped:
  assumes "\<forall>item\<in>set lineItems. map_of productMapping (price_id item) \<noteq> None"
  shows "wooLineItems lineItems =
           Inr (map (\<lambda>item. \<lparr>product_id =
                                  map_option productId (map_of productMapping (price_id item)),
                                quantity = li_quantity item\<rparr>) lineItems)"
  using assms by (induction lineItems) (auto simp: wooLineItem_def js_get_def)

lemma hasSubscription_mapped:
  assumes "item \<in> set lineItems"
    and "map_of productMapping (price_id item) = Some m" and "isSubscription m"
  shows "hasSubscription lineItems"
proof -
  have "js_get productMapping (price_id item) = Own m"
    using assms(2) by (simp add: js_get_def)
  with assms(1,3) show ?thesis
    unfolding hasSubscription_def list_ex_iff by (intro bexI [of _ item]) simp_all
qed

text \<open>
  C3 (as amended): for a checkout session with customer details, all price ids in the
  Product Mapping Table, at least one of them a subscription product, and a processor
  subscription id, the Order Builder, when the create call succeeds, issues exactly two
  write calls: the order create (metadata: the checkout-id tag) and then the metadata amend,
  whose payload is the created record's metadata followed by the subscription-id tag. When
  the amend succeeds, the record returned to the caller is the record the create call
  answered with, unchanged.
\<close>

theorem createWooOrder_create_then_amend:
  assumes mapped: "\<forall>item\<in>set lineItems. map_of productMapping (price_id item) \<noteq> None"
    and subscr: "\<exists>item\<in>set lineItems. \<exists>m.
                   map_of productMapping (price_id item) = Some m \<and> isSubscription m"
    and sid: "ses_subscription s = Some subscriptionId" "subscriptionId \<noteq> []"
    and details: "ses_customer_details s = Some cd"
    and od: "od = orderData s cd
                    (map (\<lambda>item. \<lparr>product_id =
                                     map_option productId (map_of productMapping (price_id item)),
                                   quantity = li_quantity item\<rparr>) lineItems) customerId"
    and created: "post_orders w od = Inr created"
    and final: "final = ord_meta_data created
                          @ [\<lparr>meta_key = ''stripe_subscription_id'', meta_value = subscriptionId\<rparr>]"
  shows "fst (createWooOrder w s lineItems customerId) =
           [POST_orders od, PUT_orders (ord_id created) final]
         \<and> writes (fst (createWooOrder w s lineItems customerId)) =
           [POST_orders od, PUT_orders (ord_id created) final]
         \<and> meta_data od = [\<lparr>meta_key = ''stripe_checkout_id'', meta_value = ses_id s\<rparr>]
         \<and> snd (createWooOrder w s lineItems customerId) =
           (case put_orders w (ord_id created) final of
              Inl message \<Rightarrow> Inl (TransportError message)
            | Inr amended \<Rightarrow> Inr created)"
proof -
  have items: "wooLineItems lineItems =
                 Inr (map (\<lambda>item. \<lparr>product_id =
                                  map_option productId (map_of productMapping (price_id item)),
                                quantity = li_quantity item\<rparr>) lineItems)"
    using mapped by (rule wooLineItems_mapped)
  have has: "hasSubscription lineItems"
    using subscr hasSubscription_mapped by blast
  have tag: "ord_meta_data created @ [subscription_tag s] = final"
    by (simp add: final subscription_tag_def sid or_empty_def)
  have tr: "truthy (ses_subscription s)"
    by (simp add: truthy_def sid)
  have run: "createWooOrder w s lineItems customerId =
               ([POST_orders od, PUT_orders (ord_id created) final],
                case put_orders w (ord_id created) final of
                  Inl message \<Rightarrow> Inl (TransportError message)
                | Inr amended \<Rightarrow> Inr created)"
    unfolding createWooOrder_def
    by (simp add: items details has tr tag io_defs created flip: od split: sum.split)
  show ?thesis
    by (simp add: run writes_def od orderData_def)
qed

lemma createWooOrder_demo:
  "createWooOrder demo_woo demo_session demo_items 5 =
     ([POST_orders (orderData demo_session (the (ses_customer_details demo_session))
                      [\<lparr>product_id = Some 123, quantity = 2\<rparr>] 5),
       PUT_orders 1 [\<lparr>meta_key = ''stripe_checkout_id'', meta_value = ''cs_1''\<rparr>,
                     \<lparr>meta_key = ''stripe_subscription_id'', meta_value = ''sub_1''\<rparr>]],
      Inr \<lparr>ord_id = 1,
            ord_meta_data = [\<lparr>meta_key = ''stripe_checkout_id'', meta_value = ''cs_1''\<rparr>]\<rparr>)"
  by (simp add: createWooOrder_def wooLineItem_def js_get_def productMapping_def
      hasSubscription_def truthy_def or_empty_def subscription_tag_def orderData_def io_defs
      demo_woo_def demo_session_def demo_items_def)

text \<open>
  C3 as stated fails: with a back-office that answers the create call with the order as
  sent, the two writes take place and the record returned to the caller has the
  checkout-id tag only; the subscription-id tag is in the amend call's payload, not in the
  returned record.
\<close>

theorem createWooOrder_returns_created_record:
  "hasSubscription demo_items \<and> truthy (ses_subscription demo_session)
   \<and> length (writes (fst (createWooOrder demo_woo demo_session demo_items 5))) = 2
   \<and> snd (createWooOrder demo_woo demo_session demo_items 5) =
       Inr \<lparr>ord_id = 1,
             ord_meta_data = [\<lparr>meta_key = ''stripe_checkout_id'', meta_value = ''cs_1''\<rparr>]\<rparr>
   \<and> \<lparr>meta_key = ''stripe_subscription_id'', meta_value = ''sub_1''\<rparr>
       \<notin> set [\<lparr>meta_key = ''stripe_checkout_id'', meta_value = ''cs_1''\<rparr>]"
  by (simp add: createWooOrder_demo writes_def)
    (simp add: hasSubscription_def js_get_def productMapping_def truthy_def
      demo_items_def demo_session_def)

text \<open>The amended C3 at the same session: every hypothesis holds there.\<close>

theorem createWooOrder_create_then_amend_witness:
  "fst (createWooOrder demo_woo demo_session demo_items 5) =
     [POST_orders (orderData demo_session (the (ses_customer_details demo_session))
                     [\<lparr>product_id = Some 123, quantity = 2\<rparr>] 5),
      PUT_orders 1 [\<lparr>meta_key = ''stripe_checkout_id'', meta_value = ''cs_1''\<rparr>,
                    \<lparr>meta_key = ''stripe_subscription_id'', meta_value = ''sub_1''\<rparr>]]
   \<and> snd (createWooOrder demo_woo demo_session demo_items 5) =
     Inr \<lparr>ord_id = 1,
           ord_meta_data = [\<lparr>meta_key = ''stripe_checkout_id'', meta_value = ''cs_1''\<rparr>]\<rparr>"
proof -
  let ?cd = "the (ses_customer_details demo_session)"
  let ?od = "orderData demo_session ?cd [\<lparr>product_id = Some 123, quantity = 2\<rparr>] 5"
  let ?created = "\<lparr>ord_id = 1,
      ord_meta_data = [\<lparr>meta_key = ''stripe_checkout_id'', meta_value = ''cs_1''\<rparr>]\<rparr>"
  let ?final = "[\<lparr>meta_key = ''stripe_checkout_id'', meta_value = ''cs_1''\<rparr>,
                 \<lparr>meta_key = ''stripe_subscription_id'', meta_value = ''sub_1''\<rparr>]"
  have h1: "\<forall>item\<in>set demo_items. map_of productMapping (price_id item) \<noteq> None"
    by (simp add: demo_items_def productMapping_def)
  have h2: "\<exists>item\<in>set demo_items. \<exists>m.
              map_of productMapping (price_id item) = Some m \<and> isSubscription m"
    by (simp add: demo_items_def productMapping_def)
  have h3: "ses_subscription demo_session = Some ''sub_1''" "''sub_1'' \<noteq> []"
    by (simp_all add: demo_session_def)
  have h4: "ses_customer_details demo_session = Some ?cd"
    by (simp add: demo_session_def)
  have h5: "?od = orderData demo_session ?cd
                    (map (\<lambda>item. \<lparr>product_id =
                                     map_option productId (map_of productMapping (price_id item)),
                                   quantity = li_quantity item\<rparr>) demo_items) 5"
    by (simp add: demo_items_def productMapping_def)
  have h6: "post_orders demo_woo ?od = Inr ?created"
    by (simp add: demo_woo_def orderData_def demo_session_def)
  have h7: "?final = ord_meta_data ?created
                       @ [\<lparr>meta_key = ''stripe_subscription_id'', meta_value = ''sub_1''\<rparr>]"
    by simp
  have h8: "put_orders demo_woo 1 ?final = Inr \<lparr>ord_id = 1, ord_meta_data = ?final\<rparr>"
    by (simp add: demo_woo_def)
  show ?thesis
    using createWooOrder_create_then_amend [OF h1 h2 h3 h4 h5 h6 h7] h8
    by simp
qed

text \<open>
  A line item whose price id is neither in the Product Mapping Table nor the name of a
  member of \<open>Object.prototype\<close> aborts the order before any call is issued; the error
  names the first such item.
\<close>

lemma wooLineItems_unmapped:
  assumes "item \<in> set lineItems" and "js_get productMapping (price_id item) = Undefined"
  shows "\<exists>unmapped\<in>set lineItems.
           js_get productMapping (price_id unmapped) = Undefined
           \<and> wooLineItems lineItems = Inl (UnmappedProductError (price_id unmapped))"
  using assms
proof (induction lineItems)
  case Nil
  then show ?case by simp
next
  case (Cons first rest)
  show ?case
  proof (cases "js_get productMapping (price_id first) = Undefined")
    case True
    then show ?thesis by (simp add: wooLineItem_def)
  next
    case False
    with Cons.prems have "item \<in> set rest" by auto
    with Cons.IH Cons.prems(2) obtain unmapped where
      u: "unmapped \<in> set rest" "js_get productMapping (price_id unmapped) = Undefined"
         "wooLineItems rest = Inl (UnmappedProductError (price_id unmapped))"
      by blast
    from False obtain x where "wooLineItem first = Inr x"
      by (cases "js_get productMapping (price_id first)") (simp_all add: wooLineItem_def)
    with u show ?thesis by auto
  qed
qed

lemma createWooOrder_unmapped:
  assumes "item \<in> set lineItems" and "js_get productMapping (price_id item) = Undefined"
  shows "\<exists>unmapped\<in>set lineItems.
           createWooOrder w s lineItems customerId =
             ([], Inl (UnmappedProductError (price_id unmapped)))"
proof -
  from wooLineItems_unmapped [OF assms] obtain unmapped where
    "unmapped \<in> set lineItems"
    "wooLineItems lineItems = Inl (UnmappedProductError (price_id unmapped))"
    by blast
  then show ?thesis
    by (auto simp: createWooOrder_def throw_def)
qed

text \<open>
  C4: a line item whose price id is absent from the Product Mapping Table must abort the
  order with no write. For the price id \<open>constructor\<close>, which is absent from the table,
  the read \<open>productMapping[item.price.id]\<close> finds the inherited member, the guard
  \<open>if (!mapping)\<close> does not fire, and the order is created with a line item that has no
  product id.
\<close>

theorem createWooOrder_inherited_price_id:
  "map_of productMapping ''constructor'' = None
   \<and> createWooOrder demo_woo demo_session inherited_items 5 =
       ([POST_orders (orderData demo_session (the (ses_customer_details demo_session))
                        [\<lparr>product_id = None, quantity = 1\<rparr>] 5)],
        Inr \<lparr>ord_id = 1,
              ord_meta_data = [\<lparr>meta_key = ''stripe_checkout_id'', meta_value = ''cs_1''\<rparr>]\<rparr>)"
  by (simp add: createWooOrder_def wooLineItem_def js_get_def productMapping_def
      Object_prototype_members_def hasSubscription_def orderData_def io_defs
      demo_woo_def demo_session_def inherited_items_def)

subsection \<open>Customer Reconciler\<close>

lemma getOrCreateWooCustomer_no_details:
  "getOrCreateWooCustomer w None = ([], Inl ValidationError)"
  by (simp add: getOrCreateWooCustomer_def throw_def)

lemma getOrCreateWooCustomer_no_email:
  assumes "cd_email cd = None \<or> cd_email cd = Some []"
  shows "getOrCreateWooCustomer w (Some cd) = ([], Inl ValidationError)"
  using assms by (auto simp: getOrCreateWooCustomer_def throw_def truthy_def)

lemma getOrCreateWooCustomer_email:
  assumes "cd_email cd = Some e" and "e \<noteq> []"
  shows "getOrCreateWooCustomer w (Some cd) =
           (case get_customers w (Some e) of
              Inl message \<Rightarrow> ([GET_customers (Some e)], Inl (TransportError message))
            | Inr (Some (first # others)) \<Rightarrow> ([GET_customers (Some e)], Inr first)
            | Inr _ \<Rightarrow>
                ([GET_customers (Some e), POST_customers (customerData cd)],
                 case post_customers w (customerData cd) of
                   Inl message \<Rightarrow> Inl (TransportError message)
                 | Inr created \<Rightarrow> Inr created))"
  using assms
  by (simp add: getOrCreateWooCustomer_def truthy_def io_defs
      split: sum.split option.split list.split)

text \<open>
  C8: the Customer Reconciler fails with \<open>ValidationError\<close> exactly when the contact
  details lack an email (no details, no email field, or an empty one), and then issues no
  call. With an email and at least one customer in the answer to the lookup, it returns the
  first of them after that single read. With an email and no customer in the answer, it
  issues the lookup and then one create call. Whenever it writes at all, that is the case it
  is in, and the write is that single create call.
\<close>

theorem getOrCreateWooCustomer_cases:
  "(snd (getOrCreateWooCustomer w details) = Inl ValidationError
      \<longleftrightarrow> details = None
          \<or> (\<exists>cd. details = Some cd \<and> (cd_email cd = None \<or> cd_email cd = Some [])))
   \<and> (snd (getOrCreateWooCustomer w details) = Inl ValidationError
        \<longrightarrow> fst (getOrCreateWooCustomer w details) = [])
   \<and> (\<forall>cd e first others.
         details = Some cd \<and> cd_email cd = Some e \<and> e \<noteq> []
         \<and> get_customers w (Some e) = Inr (Some (first # others))
         \<longrightarrow> getOrCreateWooCustomer w details = ([GET_customers (Some e)], Inr first))
   \<and> (\<forall>cd e.
         details = Some cd \<and> cd_email cd = Some e \<and> e \<noteq> []
         \<and> (get_customers w (Some e) = Inr None \<or> get_customers w (Some e) = Inr (Some []))
         \<longrightarrow> fst (getOrCreateWooCustomer w details) =
               [GET_customers (Some e), POST_customers (customerData cd)])
   \<and> (writes (fst (getOrCreateWooCustomer w details)) \<noteq> []
        \<longrightarrow> (\<exists>cd e.
               details = Some cd \<and> cd_email cd = Some e \<and> e \<noteq> []
               \<and> (get_customers w (Some e) = Inr None \<or> get_customers w (Some e) = Inr (Some []))
               \<and> writes (fst (getOrCreateWooCustomer w details)) =
                   [POST_customers (customerData cd)]))"
proof (cases details)
  case None
  then show ?thesis
    by (simp add: getOrCreateWooCustomer_no_details writes_def)
next
  case (Some cd)
  show ?thesis
  proof (cases "cd_email cd = None \<or> cd_email cd = Some []")
    case True
    then have "getOrCreateWooCustomer w details = ([], Inl ValidationError)"
      unfolding Some by (rule getOrCreateWooCustomer_no_email)
    with True show ?thesis
      by (auto simp: Some writes_def)
  next
    case False
    then obtain e where e: "cd_email cd = Some e" "e \<noteq> []"
      by (cases "cd_email cd") auto
    note run = getOrCreateWooCustomer_email [OF e, of w]
    show ?thesis
    proof (cases "get_customers w (Some e)")
      case (Inl message)
      with e show ?thesis
        by (simp add: Some run writes_def)
    next
      case (Inr found)
      show ?thesis
      proof (cases found)
        case None
        with e Inr show ?thesis
          by (simp add: Some run writes_def split: sum.split)
      next
        case (Some customers)
        with e Inr show ?thesis
          by (cases customers) (simp_all add: \<open>details = Some cd\<close> run writes_def split: sum.split)
      qed
    qed
  qed
qed

text \<open>C8 at three contact details: without email, of a known customer, of a new one.\<close>

theorem getOrCreateWooCustomer_cases_witness:
  "snd (getOrCreateWooCustomer demo_woo (Some no_email_details)) = Inl ValidationError
   \<and> fst (getOrCreateWooCustomer demo_woo (Some no_email_details)) = []
   \<and> getOrCreateWooCustomer demo_woo (Some known_customer_details) =
       ([GET_customers (Some ''a@example.com'')],
        Inr \<lparr>cust_id = 5, cust_email = ''a@example.com''\<rparr>)
   \<and> fst (getOrCreateWooCustomer demo_woo (Some new_customer_details)) =
       [GET_customers (Some ''b@example.com''), POST_customers (customerData new_customer_details)]
   \<and> writes (fst (getOrCreateWooCustomer demo_woo (Some new_customer_details))) =
       [POST_customers (customerData new_customer_details)]"
proof -
  have a: "snd (getOrCreateWooCustomer demo_woo (Some no_email_details)) = Inl ValidationError
           \<and> fst (getOrCreateWooCustomer demo_woo (Some no_email_details)) = []"
    using getOrCreateWooCustomer_cases [of demo_woo "Some no_email_details"]
    by (simp add: no_email_details_def)
  have b: "getOrCreateWooCustomer demo_woo (Some known_customer_details) =
             ([GET_customers (Some ''a@example.com'')],
              Inr \<lparr>cust_id = 5, cust_email = ''a@example.com''\<rparr>)"
    using getOrCreateWooCustomer_cases [of demo_woo "Some known_customer_details"]
    by (simp add: known_customer_details_def demo_woo_def)
  have c: "fst (getOrCreateWooCustomer demo_woo (Some new_customer_details)) =
             [GET_customers (Some ''b@example.com''),
              POST_customers (customerData new_customer_details)]"
    using getOrCreateWooCustomer_cases [of demo_woo "Some new_customer_details"]
    by (simp add: new_customer_details_def demo_woo_def)
  have d: "writes (fst (getOrCreateWooCustomer demo_woo (Some new_customer_details))) =
             [POST_customers (customerData new_customer_details)]"
    using getOrCreateWooCustomer_cases [of demo_woo "Some new_customer_details"]
    by (simp add: c writes_def)
  from a b c d show ?thesis by simp
qed

subsection \<open>Subscription Locator\<close>

lemma findWooSubscription_fst:
  "fst (findWooSubscription w sid customerId) = [GET_subscriptions customerId]"
  by (simp add: findWooSubscription_def io_defs split: sum.split)

lemma findWooSubscription_ok:
  assumes "get_subscriptions w customerId = Inr data"
  shows "findWooSubscription w sid customerId =
           ([GET_subscriptions customerId], Inr (locate sid data))"
  using assms by (simp add: findWooSubscription_def io_defs)

lemma findWooSubscription_failed:
  assumes "get_subscriptions w customerId = Inl message"
  shows "findWooSubscription w sid customerId =
           ([GET_subscriptions customerId], Inl (TransportError message))"
  using assms by (simp add: findWooSubscription_def io_defs)

lemma locate_Some:
  "locate sid (Some subs) =
     (case List.find (has_stripe_tag sid) subs of
        Some subscription \<Rightarrow> Some subscription
      | None \<Rightarrow> (case activeSubscriptions subs of [] \<Rightarrow> None | sub # _ \<Rightarrow> Some sub))"
proof (cases subs)
  case Nil
  then show ?thesis
    by (simp add: locate_def activeSubscriptions_def)
next
  case (Cons first rest)
  show ?thesis
    unfolding Cons by (simp add: locate_def)
qed

lemma locate_unfold:
  assumes "subs = (case data of None \<Rightarrow> [] | Some xs \<Rightarrow> xs)"
  shows "locate sid data =
           (case List.find (has_stripe_tag sid) subs of
              Some subscription \<Rightarrow> Some subscription
            | None \<Rightarrow> (case activeSubscriptions subs of [] \<Rightarrow> None | sub # _ \<Rightarrow> Some sub))"
proof (cases data)
  case None
  with assms have "subs = []" by simp
  then show ?thesis
    by (simp add: None locate_def activeSubscriptions_def)
next
  case (Some xs)
  with assms have "xs = subs" by simp
  then show ?thesis
    unfolding Some by (simp add: locate_Some)
qed

lemma set_activeSubscriptions:
  "set (activeSubscriptions subs) = {t \<in> set subs. ws_status t = ''active''}"
  by (auto simp: activeSubscriptions_def)

lemma activeSubscriptions_head:
  assumes "activeSubscriptions subs = s # rest"
  shows "s \<in> set subs \<and> ws_status s = ''active''
         \<and> (\<forall>t\<in>set subs. ws_status t = ''active'' \<longrightarrow> ws_date_created t \<le> ws_date_created s)"
proof -
  have srt: "sorted (map (\<lambda>sub. - ws_date_created sub) (activeSubscriptions subs))"
    by (simp add: activeSubscriptions_def)
  have "s \<in> set (activeSubscriptions subs)"
    by (simp add: assms)
  then have s: "s \<in> set subs \<and> ws_status s = ''active''"
    by (simp add: set_activeSubscriptions)
  have "ws_date_created t \<le> ws_date_created s"
    if "t \<in> set subs" "ws_status t = ''active''" for t
  proof -
    from that have "t \<in> set (activeSubscriptions subs)"
      by (simp add: set_activeSubscriptions)
    with srt show ?thesis
      by (auto simp: assms)
  qed
  with s show ?thesis by blast
qed

text \<open>
  Ties: among the active subscriptions created at the same time as the one the fallback
  selects, the selected one comes first in the order of the API's answer.
\<close>

lemma activeSubscriptions_head_first:
  assumes "activeSubscriptions subs = s # rest"
  shows "\<exists>later. filter (\<lambda>t. ws_status t = ''active''
                            \<and> ws_date_created t = ws_date_created s) subs = s # later"
proof -
  let ?f = "\<lambda>sub. - ws_date_created sub"
  have "filter (\<lambda>y. ?f y = ?f s) (activeSubscriptions subs)
          = filter (\<lambda>y. ?f y = ?f s) (filter (\<lambda>sub. ws_status sub = ''active'') subs)"
    unfolding activeSubscriptions_def by (rule sort_key_stable)
  then have "filter (\<lambda>t. ws_status t = ''active'' \<and> ws_date_created t = ws_date_created s) subs
               = s # filter (\<lambda>y. ?f y = ?f s) rest"
    by (simp add: assms conj_commute)
  then show ?thesis by blast
qed

lemma find_first:
  assumes "\<forall>t\<in>set before. \<not> P t" and "P s"
  shows "List.find P (before @ s # after) = Some s"
  using assms by (induction before) simp_all

text \<open>
  C5: when the read of the customer's subscriptions succeeds, the Subscription Locator
  issues that read only and never fails. If some subscription carries the tag
  \<open>stripe_subscription_id\<close> with the given id, it returns such a subscription; otherwise,
  if some subscription is \<open>active\<close>, it returns an active subscription that no active
  one is created after; otherwise it returns absence.
\<close>

theorem findWooSubscription_cases:
  assumes "get_subscriptions w customerId = Inr data"
    and "subs = (case data of None \<Rightarrow> [] | Some xs \<Rightarrow> xs)"
  shows "fst (findWooSubscription w sid customerId) = [GET_subscriptions customerId]
    \<and> ((\<exists>s\<in>set subs. has_stripe_tag sid s) \<longrightarrow>
         (\<exists>s\<in>set subs. has_stripe_tag sid s
            \<and> snd (findWooSubscription w sid customerId) = Inr (Some s)))
    \<and> ((\<forall>s\<in>set subs. \<not> has_stripe_tag sid s) \<and> (\<exists>s\<in>set subs. ws_status s = ''active'') \<longrightarrow>
         (\<exists>s\<in>set subs. ws_status s = ''active''
            \<and> (\<forall>t\<in>set subs. ws_status t = ''active''
                   \<longrightarrow> ws_date_created t \<le> ws_date_created s)
            \<and> snd (findWooSubscription w sid customerId) = Inr (Some s)))
    \<and> ((\<forall>s\<in>set subs. \<not> has_stripe_tag sid s) \<and> (\<forall>s\<in>set subs. ws_status s \<noteq> ''active'') \<longrightarrow>
         snd (findWooSubscription w sid customerId) = Inr None)"
proof -
  note run = findWooSubscription_ok [OF assms(1), of sid]
  note loc = locate_unfold [OF assms(2), of sid]
  have tagged: "\<exists>s\<in>set subs. has_stripe_tag sid s
                  \<and> snd (findWooSubscription w sid customerId) = Inr (Some s)"
    if "\<exists>s\<in>set subs. has_stripe_tag sid s"
  proof -
    from that obtain s where "List.find (has_stripe_tag sid) subs = Some s"
      by (cases "List.find (has_stripe_tag sid) subs") (auto simp: find_None_iff)
    moreover from this have "s \<in> set subs \<and> has_stripe_tag sid s"
      by (auto simp: find_Some_iff)
    ultimately show ?thesis
      by (auto simp: run loc)
  qed
  have untagged: "List.find (has_stripe_tag sid) subs = None"
    if "\<forall>s\<in>set subs. \<not> has_stripe_tag sid s"
    using that by (simp add: find_None_iff)
  have fallback: "\<exists>s\<in>set subs. ws_status s = ''active''
            \<and> (\<forall>t\<in>set subs. ws_status t = ''active''
                   \<longrightarrow> ws_date_created t \<le> ws_date_created s)
            \<and> snd (findWooSubscription w sid customerId) = Inr (Some s)"
    if no: "\<forall>s\<in>set subs. \<not> has_stripe_tag sid s" and act: "\<exists>s\<in>set subs. ws_status s = ''active''"
  proof -
    from act have "set (activeSubscriptions subs) \<noteq> {}"
      by (auto simp: set_activeSubscriptions)
    then obtain s rest where sr: "activeSubscriptions subs = s # rest"
      by (cases "activeSubscriptions subs") auto
    from activeSubscriptions_head [OF sr] show ?thesis
      by (auto simp: run loc untagged [OF no] sr)
  qed
  have absent: "snd (findWooSubscription w sid customerId) = Inr None"
    if no: "\<forall>s\<in>set subs. \<not> has_stripe_tag sid s" and "\<forall>s\<in>set subs. ws_status s \<noteq> ''active''"
  proof -
    from that(2) have "set (activeSubscriptions subs) = {}"
      by (auto simp: set_activeSubscriptions)
    then have "activeSubscriptions subs = []" by simp
    then show ?thesis
      by (simp add: run loc untagged [OF no])
  qed
  show ?thesis
    using tagged fallback absent by (simp add: findWooSubscription_fst)
qed

lemma demo_has_stripe_tag:
  "has_stripe_tag sid older_active_sub = False"
  "has_stripe_tag sid tagged_on_hold_sub = (sid = ''sub_1'')"
  "has_stripe_tag sid recent_active_sub = False"
  by (auto simp: has_stripe_tag_def older_active_sub_def tagged_on_hold_sub_def
      recent_active_sub_def)

lemma demo_status:
  "ws_status older_active_sub = ''active''"
  "ws_status tagged_on_hold_sub = ''on-hold''"
  "ws_status recent_active_sub = ''active''"
  "ws_date_created older_active_sub = 1000"
  "ws_date_created recent_active_sub = 2000"
  by (simp_all add: older_active_sub_def tagged_on_hold_sub_def recent_active_sub_def)

text \<open>C5 at a tag match, at a fallback and at an absence.\<close>

theorem findWooSubscription_cases_witness:
  "snd (findWooSubscription demo_woo ''sub_1'' 5) = Inr (Some tagged_on_hold_sub)
   \<and> snd (findWooSubscription demo_woo ''sub_9'' 5) = Inr (Some recent_active_sub)
   \<and> snd (findWooSubscription demo_woo ''sub_9'' 7) = Inr None"
proof -
  have g5: "get_subscriptions demo_woo 5 = Inr (Some demo_subscriptions)"
    and g7: "get_subscriptions demo_woo 7 = Inr (Some [])"
    by (simp_all add: demo_woo_def)
  have s5: "demo_subscriptions = (case Some demo_subscriptions of None \<Rightarrow> [] | Some xs \<Rightarrow> xs)"
    and s7: "[] = (case Some ([] :: woo_subscription list) of None \<Rightarrow> [] | Some xs \<Rightarrow> xs)"
    by simp_all
  have a: "snd (findWooSubscription demo_woo ''sub_1'' 5) = Inr (Some tagged_on_hold_sub)"
    using findWooSubscription_cases [OF g5 s5, of "''sub_1''"]
    by (simp add: demo_subscriptions_def demo_has_stripe_tag)
  have b: "snd (findWooSubscription demo_woo ''sub_9'' 5) = Inr (Some recent_active_sub)"
    using findWooSubscription_cases [OF g5 s5, of "''sub_9''"]
    by (simp add: demo_subscriptions_def demo_has_stripe_tag demo_status)
  have c: "snd (findWooSubscription demo_woo ''sub_9'' 7) = Inr None"
    using findWooSubscription_cases [OF g7 s7, of "''sub_9''"]
    by simp
  from a b c show ?thesis by simp
qed

text \<open>
  C9: the tag match has precedence over the fallback and does not look at the status: the
  first subscription, in the order of the API's answer, that carries the tag with the given
  id is returned, whatever its status and whatever the other subscriptions are.
\<close>

theorem findWooSubscription_tag_precedence:
  assumes "get_subscriptions w customerId = Inr (Some subs)"
    and "subs = before @ s # after"
    and "\<forall>t\<in>set before. \<not> has_stripe_tag sid t"
    and "has_stripe_tag sid s"
  shows "findWooSubscription w sid customerId =
           ([GET_subscriptions customerId], Inr (Some s))"
proof -
  have "List.find (has_stripe_tag sid) subs = Some s"
    unfolding assms(2) using assms(3,4) by (rule find_first)
  moreover have "subs = (case Some subs of None \<Rightarrow> [] | Some xs \<Rightarrow> xs)"
    by simp
  ultimately have "locate sid (Some subs) = Some s"
    by (simp add: locate_unfold)
  then show ?thesis
    by (simp add: findWooSubscription_ok [OF assms(1)])
qed

text \<open>
  C9 where the tagged subscription is on hold and stands after an untagged active one.
\<close>

theorem findWooSubscription_tag_precedence_witness:
  "ws_status older_active_sub = ''active''
   \<and> \<not> has_stripe_tag ''sub_1'' older_active_sub
   \<and> ws_status tagged_on_hold_sub = ''on-hold''
   \<and> has_stripe_tag ''sub_1'' tagged_on_hold_sub
   \<and> findWooSubscription demo_woo ''sub_1'' 5 =
       ([GET_subscriptions 5], Inr (Some tagged_on_hold_sub))"
proof -
  have g: "get_subscriptions demo_woo 5 = Inr (Some demo_subscriptions)"
    by (simp add: demo_woo_def)
  have split: "demo_subscriptions =
                 [older_active_sub] @ tagged_on_hold_sub # [recent_active_sub]"
    by (simp add: demo_subscriptions_def)
  have before: "\<forall>t\<in>set [older_active_sub]. \<not> has_stripe_tag ''sub_1'' t"
    by (simp add: demo_has_stripe_tag)
  have here: "has_stripe_tag ''sub_1'' tagged_on_hold_sub"
    by (simp add: demo_has_stripe_tag)
  show ?thesis
    using findWooSubscription_tag_precedence [OF g split before here] before here
    by (simp add: demo_status)
qed

subsection \<open>Renewal Processor\<close>

text \<open>
  C6: when the Subscription Locator returns absence, the Renewal Processor returns without
  error (\<open>undefined\<close>) after the locator's read, and performs no write call.
\<close>

theorem processSubscriptionRenewal_no_subscription:
  assumes "snd (findWooSubscription w (sub_id subscription) customerId) = Inr None"
  shows "processSubscriptionRenewal w invoice subscription customerId =
           ([GET_subscriptions customerId], Inr None)
         \<and> writes (fst (processSubscriptionRenewal w invoice subscription customerId)) = []"
proof -
  have "findWooSubscription w (sub_id subscription) customerId =
          ([GET_subscriptions customerId], Inr None)"
    using findWooSubscription_fst assms by (rule io_collapse)
  then show ?thesis
    by (simp add: processSubscriptionRenewal_def await_def return_def writes_def)
qed

text \<open>C6 for a customer without subscriptions.\<close>

theorem processSubscriptionRenewal_no_subscription_witness:
  "processSubscriptionRenewal demo_woo demo_invoice demo_subscription 7 =
     ([GET_subscriptions 7], Inr None)
   \<and> writes (fst (processSubscriptionRenewal demo_woo demo_invoice demo_subscription 7)) = []"
proof -
  have "snd (findWooSubscription demo_woo (sub_id demo_subscription) 7) = Inr None"
    by (simp add: findWooSubscription_def locate_def io_defs demo_woo_def)
  then show ?thesis
    by (rule processSubscriptionRenewal_no_subscription)
qed

text \<open>
  C7: when the subscription is matched and the renewal order is created, the Renewal
  Processor then writes the status \<open>active\<close> to the matched subscription, whatever the
  invoice is; the renewal order's line items are the matched subscription's line items,
  product id and quantity of each.
\<close>

theorem processSubscriptionRenewal_matched:
  assumes found: "snd (findWooSubscription w (sub_id subscription) customerId) =
                    Inr (Some wooSubscription)"
    and rd: "rd = renewalOrderData invoice subscription customerId wooSubscription"
    and created: "post_orders w rd = Inr created"
  shows "fst (processSubscriptionRenewal w invoice subscription customerId) =
           [GET_subscriptions customerId, POST_orders rd,
            PUT_subscriptions (ws_id wooSubscription) (StatusString ''active'')]
         \<and> line_items rd =
             map (\<lambda>item. \<lparr>product_id = Some (si_product_id item), quantity = si_quantity item\<rparr>)
               (ws_line_items wooSubscription)
         \<and> snd (processSubscriptionRenewal w invoice subscription customerId) =
             (case put_subscriptions w (ws_id wooSubscription) (StatusString ''active'') of
                Inl message \<Rightarrow> Inl (TransportError message)
              | Inr updated \<Rightarrow> Inr (Some created))"
proof -
  have loc: "findWooSubscription w (sub_id subscription) customerId =
          ([GET_subscriptions customerId], Inr (Some wooSubscription))"
    using findWooSubscription_fst found by (rule io_collapse)
  have active: "wooStatus ''active'' = StatusString ''active''"
    by (rule wooStatus_table)
  have "processSubscriptionRenewal w invoice subscription customerId =
          ([GET_subscriptions customerId, POST_orders rd,
            PUT_subscriptions (ws_id wooSubscription) (StatusString ''active'')],
           case put_subscriptions w (ws_id wooSubscription) (StatusString ''active'') of
             Inl message \<Rightarrow> Inl (TransportError message)
           | Inr updated \<Rightarrow> Inr (Some created))"
    unfolding processSubscriptionRenewal_def loc updateWooSubscriptionStatus_def active
    by (simp add: io_defs created flip: rd split: sum.split)
  then show ?thesis
    by (simp add: rd renewalOrderData_def)
qed

text \<open>C7 for an invoice whose own status is not \<open>paid\<close>.\<close>

theorem processSubscriptionRenewal_matched_witness:
  "inv_status demo_invoice \<noteq> ''paid''
   \<and> fst (processSubscriptionRenewal demo_woo demo_invoice demo_subscription 5) =
       [GET_subscriptions 5,
        POST_orders (renewalOrderData demo_invoice demo_subscription 5 tagged_on_hold_sub),
        PUT_subscriptions 11 (StatusString ''active'')]
   \<and> line_items (renewalOrderData demo_invoice demo_subscription 5 tagged_on_hold_sub) =
       [\<lparr>product_id = Some 123, quantity = 2\<rparr>]
   \<and> snd (processSubscriptionRenewal demo_woo demo_invoice demo_subscription 5) =
       Inr (Some \<lparr>ord_id = 1,
                   ord_meta_data =
                     [\<lparr>meta_key = ''stripe_invoice_id'', meta_value = ''in_1''\<rparr>,
                      \<lparr>meta_key = ''stripe_subscription_id'', meta_value = ''sub_1''\<rparr>,
                      \<lparr>meta_key = ''is_renewal'', meta_value = ''true''\<rparr>]\<rparr>)"
proof -
  let ?rd = "renewalOrderData demo_invoice demo_subscription 5 tagged_on_hold_sub"
  let ?created = "\<lparr>ord_id = 1, ord_meta_data = meta_data ?rd\<rparr>"
  have h1: "snd (findWooSubscription demo_woo (sub_id demo_subscription) 5) =
              Inr (Some tagged_on_hold_sub)"
    by (simp add: findWooSubscription_def locate_def io_defs demo_woo_def demo_subscription_def
        demo_subscriptions_def demo_has_stripe_tag)
  have h2: "?rd = renewalOrderData demo_invoice demo_subscription 5 tagged_on_hold_sub"
    by simp
  have h3: "post_orders demo_woo ?rd = Inr ?created"
    by (simp add: demo_woo_def)
  show ?thesis
    using processSubscriptionRenewal_matched [OF h1 h2 h3]
    by (simp add: demo_woo_def renewalOrderData_def tagged_on_hold_sub_def demo_invoice_def
        demo_subscription_def)
qed

subsection \<open>Dispatcher\<close>

lemma findWooCustomerByEmail_fst:
  "fst (findWooCustomerByEmail w e) = [GET_customers e]"
  by (simp add: findWooCustomerByEmail_def io_defs split: sum.split option.split list.split)

text \<open>
  The handler of subscription-deleted events passes the literal \<open>cancelled\<close> through
  the status translator, whose table has the key \<open>canceled\<close> only: for every matched
  subscription the status written to the back-office is the default \<open>on-hold\<close>.
\<close>

lemma handleSubscriptionCancelled_matched:
  assumes "customers_retrieve st (sub_customer subscription) = Inr stripeCustomer"
    and "snd (findWooCustomerByEmail w (sc_email stripeCustomer)) = Inr (Some c)"
    and "snd (findWooSubscription w (sub_id subscription) (cust_id c)) =
           Inr (Some wooSubscription)"
  shows "fst (handleSubscriptionCancelled st w subscription) =
           [GET_customers (sc_email stripeCustomer), GET_subscriptions (cust_id c),
            PUT_subscriptions (ws_id wooSubscription) (StatusString ''on-hold'')]"
proof -
  have present: "findWooCustomerByEmail w (sc_email stripeCustomer) =
                   ([GET_customers (sc_email stripeCustomer)], Inr (Some c))"
    using findWooCustomerByEmail_fst assms(2) by (rule io_collapse)
  have matched: "findWooSubscription w (sub_id subscription) (cust_id c) =
                   ([GET_subscriptions (cust_id c)], Inr (Some wooSubscription))"
    using findWooSubscription_fst assms(3) by (rule io_collapse)
  show ?thesis
    unfolding handleSubscriptionCancelled_def updateWooSubscriptionStatus_def
      wooStatus_cancelled
    by (simp add: assms(1) present matched io_defs split: sum.split)
qed

text \<open>
  C2: a subscription-deleted event whose subscription the Subscription Locator matches
  must lead to the status write \<open>cancelled\<close>. At the event for the processor
  subscription \<open>sub_1\<close>, matched by the tag of the back-office subscription 11, the
  status written is \<open>on-hold\<close>.
\<close>

theorem handleSubscriptionCancelled_on_hold:
  "locate (sub_id demo_deleted) (Some demo_subscriptions) = Some tagged_on_hold_sub
   \<and> ws_id tagged_on_hold_sub = 11
   \<and> handleSubscriptionCancelled demo_stripe demo_woo demo_deleted =
       ([GET_customers (Some ''a@example.com''), GET_subscriptions 5,
         PUT_subscriptions 11 (StatusString ''on-hold'')], Inr ())"
  by (simp add: handleSubscriptionCancelled_def findWooCustomerByEmail_def
      findWooSubscription_def updateWooSubscriptionStatus_def wooStatus_cancelled
      locate_def has_stripe_tag_def io_defs demo_stripe_def demo_woo_def demo_deleted_def
      demo_subscriptions_def older_active_sub_def tagged_on_hold_sub_def)

text \<open>
  C10: for a subscription-updated or a subscription-deleted event whose processor customer
  is retrieved, the absence of a back-office customer for that customer's email makes the
  handler throw, and the dispatcher answers with the server error 500; the absence of a
  matching subscription for a customer that is found is a skip, answered with 200. Neither
  case writes to the back-office.
\<close>

theorem subscription_event_customer_absent:
  assumes ev: "ev = customer_subscription_updated subscription
               \<or> ev = customer_subscription_deleted subscription"
    and retrieved: "customers_retrieve st (sub_customer subscription) = Inr stripeCustomer"
  shows "(snd (findWooCustomerByEmail w (sc_email stripeCustomer)) = Inr None \<longrightarrow>
            dispatch st w ev =
              ([GET_customers (sc_email stripeCustomer)],
               Inl (CustomerNotFoundError (sc_email stripeCustomer)))
            \<and> stripe_webhook st w (Inr ev) =
              ([GET_customers (sc_email stripeCustomer)],
               \<lparr>status_code = 500, body = FailedToProcess\<rparr>))
       \<and> (\<forall>c. snd (findWooCustomerByEmail w (sc_email stripeCustomer)) = Inr (Some c)
              \<and> snd (findWooSubscription w (sub_id subscription) (cust_id c)) = Inr None \<longrightarrow>
            dispatch st w ev =
              ([GET_customers (sc_email stripeCustomer), GET_subscriptions (cust_id c)], Inr ())
            \<and> stripe_webhook st w (Inr ev) =
              ([GET_customers (sc_email stripeCustomer), GET_subscriptions (cust_id c)],
               \<lparr>status_code = 200, body = Received\<rparr>))"
proof (intro conjI impI allI)
  assume "snd (findWooCustomerByEmail w (sc_email stripeCustomer)) = Inr None"
  with findWooCustomerByEmail_fst
  have absent: "findWooCustomerByEmail w (sc_email stripeCustomer) =
                  ([GET_customers (sc_email stripeCustomer)], Inr None)"
    by (rule io_collapse)
  show thrown: "dispatch st w ev =
          ([GET_customers (sc_email stripeCustomer)],
           Inl (CustomerNotFoundError (sc_email stripeCustomer)))"
    using ev
    by (auto simp: dispatch_def handleSubscriptionUpdated_def handleSubscriptionCancelled_def
        retrieved absent io_defs)
  show "stripe_webhook st w (Inr ev) =
          ([GET_customers (sc_email stripeCustomer)],
           \<lparr>status_code = 500, body = FailedToProcess\<rparr>)"
    by (simp add: stripe_webhook_def thrown)
next
  fix c
  assume both: "snd (findWooCustomerByEmail w (sc_email stripeCustomer)) = Inr (Some c)
     \<and> snd (findWooSubscription w (sub_id subscription) (cust_id c)) = Inr None"
  have present: "findWooCustomerByEmail w (sc_email stripeCustomer) =
                  ([GET_customers (sc_email stripeCustomer)], Inr (Some c))"
    using findWooCustomerByEmail_fst both [THEN conjunct1] by (rule io_collapse)
  have nosub: "findWooSubscription w (sub_id subscription) (cust_id c) =
                 ([GET_subscriptions (cust_id c)], Inr None)"
    using findWooSubscription_fst both [THEN conjunct2] by (rule io_collapse)
  show skipped: "dispatch st w ev =
          ([GET_customers (sc_email stripeCustomer), GET_subscriptions (cust_id c)], Inr ())"
    using ev
    by (auto simp: dispatch_def handleSubscriptionUpdated_def handleSubscriptionCancelled_def
        retrieved present nosub io_defs)
  show "stripe_webhook st w (Inr ev) =
          ([GET_customers (sc_email stripeCustomer), GET_subscriptions (cust_id c)],
           \<lparr>status_code = 200, body = Received\<rparr>)"
    by (simp add: stripe_webhook_def skipped)
qed

text \<open>C10 at both events for an unknown customer, and at a known customer without
  subscriptions.\<close>

theorem subscription_event_customer_absent_witness:
  "stripe_webhook demo_stripe demo_woo (Inr (customer_subscription_updated stranger_subscription)) =
     ([GET_customers (Some ''nobody@example.com'')],
      \<lparr>status_code = 500, body = FailedToProcess\<rparr>)
   \<and> stripe_webhook demo_stripe demo_woo (Inr (customer_subscription_deleted stranger_subscription)) =
     ([GET_customers (Some ''nobody@example.com'')],
      \<lparr>status_code = 500, body = FailedToProcess\<rparr>)
   \<and> stripe_webhook demo_stripe single_customer_woo
        (Inr (customer_subscription_deleted demo_deleted)) =
     ([GET_customers (Some ''a@example.com''), GET_subscriptions 5],
      \<lparr>status_code = 200, body = Received\<rparr>)"
proof -
  let ?nobody = "\<lparr>sc_email = Some ''nobody@example.com''\<rparr>"
  let ?known = "\<lparr>sc_email = Some ''a@example.com''\<rparr>"
  let ?c = "\<lparr>cust_id = 5, cust_email = ''a@example.com''\<rparr>"
  have r: "customers_retrieve demo_stripe (sub_customer stranger_subscription) = Inr ?nobody"
    by (simp add: demo_stripe_def stranger_subscription_def)
  have r': "customers_retrieve demo_stripe (sub_customer demo_deleted) = Inr ?known"
    by (simp add: demo_stripe_def demo_deleted_def)
  have absent: "snd (findWooCustomerByEmail demo_woo (sc_email ?nobody)) = Inr None"
    by (simp add: findWooCustomerByEmail_def io_defs demo_woo_def)
  have present: "snd (findWooCustomerByEmail single_customer_woo (sc_email ?known)) = Inr (Some ?c)"
    by (simp add: findWooCustomerByEmail_def io_defs demo_woo_def single_customer_woo_def)
  have nosub: "snd (findWooSubscription single_customer_woo (sub_id demo_deleted) (cust_id ?c))
                 = Inr None"
    by (simp add: findWooSubscription_def locate_def io_defs single_customer_woo_def)
  have a: "stripe_webhook demo_stripe demo_woo
             (Inr (customer_subscription_updated stranger_subscription)) =
           ([GET_customers (Some ''nobody@example.com'')],
            \<lparr>status_code = 500, body = FailedToProcess\<rparr>)"
    using subscription_event_customer_absent
      [OF disjI1 [OF refl] r, of demo_woo] absent
    by simp
  have b: "stripe_webhook demo_stripe demo_woo
             (Inr (customer_subscription_deleted stranger_subscription)) =
           ([GET_customers (Some ''nobody@example.com'')],
            \<lparr>status_code = 500, body = FailedToProcess\<rparr>)"
    using subscription_event_customer_absent
      [OF disjI2 [OF refl] r, of demo_woo] absent
    by simp
  have c: "stripe_webhook demo_stripe single_customer_woo
             (Inr (customer_subscription_deleted demo_deleted)) =
           ([GET_customers (Some ''a@example.com''), GET_subscriptions 5],
            \<lparr>status_code = 200, body = Received\<rparr>)"
    using subscription_event_customer_absent
      [OF disjI2 [OF refl] r', of single_customer_woo] present nosub
    by simp
  from a b c show ?thesis by simp
qed

end
